theory Spec2Isabelle
  imports Main
begin

section \<open>Strings\<close>

text \<open>
  A JavaScript string is modelled as a \<^typ>\<open>string\<close>: one \<^typ>\<open>char\<close> stands for one
  code unit, so the model covers the code units below 256. Console output
  (\<^verbatim>\<open>console.log\<close>, \<^verbatim>\<open>console.error\<close>) is not an effect of the model.
\<close>

definition is_ws :: "char \<Rightarrow> bool" where
  \<comment> \<open>the white space and line terminators that \<^verbatim>\<open>String.prototype.trim\<close> strips,
      among the code units below 256: TAB, LF, VT, FF, CR, SP, NBSP\<close>
  "is_ws c = ((of_char c :: nat) \<in> {9, 10, 11, 12, 13, 32, 160})"

definition trim :: "string \<Rightarrow> string" where
  "trim s = rev (dropWhile is_ws (rev (dropWhile is_ws s)))"

definition startsWith :: "string \<Rightarrow> string \<Rightarrow> bool" where
  "startsWith s p = (take (length p) s = p)"

definition substring :: "string \<Rightarrow> nat \<Rightarrow> nat \<Rightarrow> string" where
  \<comment> \<open>\<^verbatim>\<open>s.substring(i, j)\<close> for indices that are natural numbers\<close>
  "substring s i j = (if i \<le> j then take (j - i) (drop i s) else take (i - j) (drop j s))"

section \<open>JavaScript values\<close>

text \<open>
  What \<^verbatim>\<open>JSON.parse\<close> returns, and \<^verbatim>\<open>undefined\<close> for the property that is not there.
  \<open>JNum\<close> carries the integer-valued numbers; an object is the list of its own properties,
  each key once.
\<close>

datatype jsval =
    JUndefined
  | JNull
  | JBool bool
  | JNum int
  | JStr string
  | JArr "jsval list"
  | JObj "(string \<times> jsval) list"

fun truthy :: "jsval \<Rightarrow> bool" where
  "truthy JUndefined = False"
| "truthy JNull = False"
| "truthy (JBool b) = b"
| "truthy (JNum n) = (n \<noteq> 0)"
| "truthy (JStr s) = (s \<noteq> [])"
| "truthy (JArr xs) = True"
| "truthy (JObj kvs) = True"

datatype js_error =
    NullishRead jsval string  \<comment> \<open>TypeError: a property of \<^verbatim>\<open>undefined\<close> or \<^verbatim>\<open>null\<close> is read\<close>
  | NotAFunction string       \<comment> \<open>TypeError: the named method is called on a value without it\<close>
  | InvalidArg jsval          \<comment> \<open>TypeError: a native function refuses its argument\<close>
  | SyntaxError               \<comment> \<open>\<^verbatim>\<open>JSON.parse\<close> rejects its input\<close>
  | Failure string            \<comment> \<open>an \<^verbatim>\<open>Error\<close> or a rejection carrying this message\<close>

fun get_prop :: "jsval \<Rightarrow> string \<Rightarrow> js_error + jsval" where
  \<comment> \<open>\<^verbatim>\<open>v.k\<close>, for the keys the program reads (action, params, response, newText, analysis,
      command, appName, query, text, url): none of them is a property of a string, a number,
      a boolean or an array\<close>
  "get_prop JUndefined k = Inl (NullishRead JUndefined k)"
| "get_prop JNull k = Inl (NullishRead JNull k)"
| "get_prop (JObj kvs) k = Inr (case map_of kvs k of None \<Rightarrow> JUndefined | Some v \<Rightarrow> v)"
| "get_prop v k = Inr JUndefined"

fun digits :: "nat \<Rightarrow> string" where
  "digits n = (if n < 10 then [char_of (48 + n)] else digits (n div 10) @ [char_of (48 + n mod 10)])"

fun join_comma :: "string list \<Rightarrow> string" where
  "join_comma [] = []"
| "join_comma [s] = s"
| "join_comma (s # t # ts) = s @ '','' @ join_comma (t # ts)"

fun js_to_string :: "jsval \<Rightarrow> string" where
  \<comment> \<open>the string a template literal puts in for a value (integers in plain decimal notation)\<close>
  "js_to_string JUndefined = ''undefined''"
| "js_to_string JNull = ''null''"
| "js_to_string (JBool b) = (if b then ''true'' else ''false'')"
| "js_to_string (JNum n) = (if n < 0 then ''-'' @ digits (nat (- n)) else digits (nat n))"
| "js_to_string (JStr s) = s"
| "js_to_string (JArr xs) =
     join_comma (map (\<lambda>x. if x = JUndefined \<or> x = JNull then [] else js_to_string x) xs)"
| "js_to_string (JObj kvs) = ''[object Object]''"

section \<open>State, environment and effects\<close>

record BrowserWindow =
  visible :: bool

record Display =
  workAreaSize_width :: nat
  workAreaSize_height :: nat

text \<open>Of \<^verbatim>\<open>AppConfig\<close>, the fields the pipeline reads; the others style the overlay.\<close>

record AppConfig =
  apiKey :: string
  model :: string
  language :: string

record app_state =
  mainWindow :: "BrowserWindow option"
  screenWidth :: nat
  primaryDisplay :: Display
  copiedContent :: string
  config :: AppConfig
  isHiddenForFullscreen :: bool
  clipboard :: string  \<comment> \<open>the text on the system clipboard\<close>

datatype key = LeftControl | X | V

record completion_request =
  req_url :: string
  req_model :: string
  req_system :: string
  req_user :: string
  req_timeout :: nat
  req_authorization :: string

datatype effect =
    Send string "jsval list"     \<comment> \<open>\<^verbatim>\<open>mainWindow.webContents.send(channel, ...args)\<close>\<close>
  | HttpPost completion_request  \<comment> \<open>\<^verbatim>\<open>axios.post\<close>\<close>
  | Exec string                  \<comment> \<open>\<^verbatim>\<open>exec\<close> of a shell command\<close>
  | OpenExternal string          \<comment> \<open>\<^verbatim>\<open>shell.openExternal\<close>\<close>
  | ClipboardWrite string        \<comment> \<open>\<^verbatim>\<open>clipboard.writeText\<close>\<close>
  | PressKey "key list"
  | ReleaseKey "key list"
  | Hide
  | Show
  | Focus

section \<open>Content source: the clipboard poll\<close>

definition clipboardInterval :: "app_state \<Rightarrow> effect list \<times> app_state" where
  \<comment> \<open>one run of the callback of \<^verbatim>\<open>clipboardInterval\<close>\<close>
  "clipboardInterval st =
     (let newContent = clipboard st in
      if newContent \<noteq> copiedContent st \<and> trim newContent \<noteq> []
      then ((case mainWindow st of
               None \<Rightarrow> []
             | Some w \<Rightarrow> [Send ''content-copied'' [JStr newContent]]),
            st\<lparr>copiedContent := newContent\<rparr>)
      else ([], st))"

fun poll_reads :: "app_state \<Rightarrow> string list \<Rightarrow> effect list \<times> app_state" where
  \<comment> \<open>the polls of a run in which \<^verbatim>\<open>clipboard.readText()\<close> returns the given texts in turn\<close>
  "poll_reads st [] = ([], st)"
| "poll_reads st (r # rs) =
     (case clipboardInterval (st\<lparr>clipboard := r\<rparr>) of
        (es, st') \<Rightarrow> (case poll_reads st' rs of (es', st'') \<Rightarrow> (es @ es', st'')))"

definition ready_state :: "Display \<Rightarrow> AppConfig \<Rightarrow> string \<Rightarrow> app_state" where
  \<comment> \<open>the module's variables once \<^verbatim>\<open>whenReady\<close> has run \<^verbatim>\<open>loadConfig\<close> and \<^verbatim>\<open>createWindow\<close>\<close>
  "ready_state d cfg clip =
     \<lparr>mainWindow = Some \<lparr>visible = True\<rparr>, screenWidth = workAreaSize_width d,
      primaryDisplay = d, copiedContent = [], config = cfg,
      isHiddenForFullscreen = False, clipboard = clip\<rparr>"

section \<open>Completion: analyzeContent\<close>

datatype axios_outcome =
    Resolved "string list option"
      \<comment> \<open>a 2xx response: \<^verbatim>\<open>data.choices\<close> absent, or the \<^verbatim>\<open>message.content\<close> of each choice\<close>
  | RejectedStatus nat  \<comment> \<open>an AxiosError that carries a response with this status\<close>
  | RejectedOther       \<comment> \<open>an AxiosError without a response: timeout, transport\<close>

datatype exec_result = ExecOk string string | ExecFail string

record env =
  platform :: string
  axios_post :: "completion_request \<Rightarrow> axios_outcome"
  JSON_parse :: "string \<Rightarrow> jsval option"
  child_exec :: "string \<Rightarrow> exec_result"
  openExternal :: "string \<Rightarrow> string option"  \<comment> \<open>the message of the rejection, if it rejects\<close>
  keyboard :: "effect \<Rightarrow> string option"      \<comment> \<open>the message of the rejection, if it rejects\<close>
  engine_text :: "js_error \<Rightarrow> string"         \<comment> \<open>the engine's wording of its own errors\<close>

definition hex_digit :: "nat \<Rightarrow> char" where
  "hex_digit n = (if n < 10 then char_of (48 + n) else char_of (55 + n))"

definition percent :: "nat \<Rightarrow> string" where
  "percent b = [CHR ''%'', hex_digit (b div 16), hex_digit (b mod 16)]"

definition unreserved :: "char \<Rightarrow> bool" where
  \<open>unreserved c =
     (let n = (of_char c :: nat) in
      (48 \<le> n \<and> n \<le> 57) \<or> (65 \<le> n \<and> n \<le> 90) \<or> (97 \<le> n \<and> n \<le> 122) \<or>
      c \<in> set ''-_.!~*'()'')\<close>

definition encodeURIComponent :: "string \<Rightarrow> string" where
  \<comment> \<open>every code unit but the unreserved ones becomes the escaped bytes of its UTF-8 form\<close>
  "encodeURIComponent s =
     concat (map (\<lambda>c. let n = (of_char c :: nat) in
                        if unreserved c then [c]
                        else if n < 128 then percent n
                        else percent (192 + n div 64) @ percent (128 + n mod 64)) s)"

definition message :: "env \<Rightarrow> js_error \<Rightarrow> string" where
  "message env e = (case e of Failure m \<Rightarrow> m | _ \<Rightarrow> engine_text env e)"

definition OPENROUTER_API_URL :: string where
  "OPENROUTER_API_URL = ''https://openrouter.ai/api/v1''"

definition languagePrompt :: "AppConfig \<Rightarrow> string" where
  "languagePrompt cfg =
     (if language cfg = ''sv'' then ''Respond in Swedish.'' else ''Respond in English.'')"

definition systemPrompt :: "AppConfig \<Rightarrow> bool \<Rightarrow> string" where
  \<open>systemPrompt cfg isAction =
     (if isAction
      then ''You are a helpful AI assistant on Linux (Manjaro). '' @ languagePrompt cfg @
           '' For any actionable request (commands, opening apps/URLs, searching, copying, replacing text, or analysis), ALWAYS respond with valid JSON ONLY: {"action": "exact_name", "params": {}}. NO plain text, explanations, or Markdown outside JSON. If the request is to replace or edit clipboard text, use "replace_text" with {"newText": "the exact replacement text"}. Actions: "run_command" {"command": "full bash command, e.g. 'ls -la'"}, "open_url" {"url": "https://..."}, "search_web" {"query": "search term"}, "copy_text" {"text": "text to copy"}, "analysis" {"analysis": "detailed Markdown response"}, "open_app" {"appName": "e.g. firefox"}, "replace_text" {"newText": "replacement for clipboard"}. For non-actions, respond with plain text analysis.''
      else ''You are a helpful study assistant. '' @ languagePrompt cfg @
           '' Analyze the provided content and provide a clear, concise summary using Markdown for formatting (headings, lists, bold text). If it's a quiz or study material, explain key concepts and provide helpful insights. Keep responses focused and educational.'')\<close>

definition userPrompt :: "string \<Rightarrow> bool \<Rightarrow> string" where
  "userPrompt content isAction =
     (if isAction then ''Process this user request: '' @ content
      else ''Please analyze and summarize this content:\<newline>\<newline>'' @ content)"

datatype completion_error =
    AxiosErrorWithResponse nat
  | AxiosErrorNoResponse
  | InvalidApiResponse  \<comment> \<open>\<^verbatim>\<open>new Error(`Invalid API response: No choices provided.`)\<close>\<close>

definition request :: "AppConfig \<Rightarrow> string \<Rightarrow> bool \<Rightarrow> completion_request" where
  \<comment> \<open>the arguments of \<^verbatim>\<open>axios.post\<close>\<close>
  "request cfg content isAction =
     \<lparr>req_url = OPENROUTER_API_URL @ ''/chat/completions'',
      req_model = model cfg,
      req_system = systemPrompt cfg isAction,
      req_user = userPrompt content isAction,
      req_timeout = 15000,
      req_authorization = ''Bearer '' @ apiKey cfg\<rparr>"

definition analyzeContent_try ::
  "env \<Rightarrow> AppConfig \<Rightarrow> string \<Rightarrow> bool \<Rightarrow> effect list \<times> (completion_error + string)" where
  \<comment> \<open>the \<^verbatim>\<open>try\<close> block of \<^verbatim>\<open>analyzeContent\<close>\<close>
  "analyzeContent_try env cfg content isAction =
     (let req = request cfg content isAction
      in ([HttpPost req],
          (case axios_post env req of
             Resolved None \<Rightarrow> Inl InvalidApiResponse
           | Resolved (Some []) \<Rightarrow> Inl InvalidApiResponse
           | Resolved (Some (c # cs)) \<Rightarrow> Inr c
           | RejectedStatus n \<Rightarrow> Inl (AxiosErrorWithResponse n)
           | RejectedOther \<Rightarrow> Inl AxiosErrorNoResponse)))"

definition analyzeContent :: "env \<Rightarrow> AppConfig \<Rightarrow> string \<Rightarrow> bool \<Rightarrow> effect list \<times> string" where
  "analyzeContent env cfg content isAction =
     (if apiKey cfg = [] then ([], ''No OpenRouter API key set. Press F1 to configure.'')
      else (case analyzeContent_try env cfg content isAction of
              (es, Inr r) \<Rightarrow> (es, r)
            | (es, Inl error) \<Rightarrow>
                (es,
                 (case error of
                    AxiosErrorWithResponse status \<Rightarrow>
                      if status = 401 then ''Invalid API key (401). Press F1 to update it.''
                      else if status = 404 \<or> status = 400
                      then ''Model '' @ [CHR 0x27] @ model cfg @ [CHR 0x27] @
                           '' not available. Press F1 to change it.''
                      else ''Network error or API unavailable. Please check your connection.''
                  | _ \<Rightarrow> ''Network error or API unavailable. Please check your connection.''))))"

section \<open>Action handlers: executeAction\<close>

definition params_of :: "jsval \<Rightarrow> string \<Rightarrow> js_error + jsval" where
  \<comment> \<open>\<^verbatim>\<open>actionData.params.k\<close>\<close>
  "params_of actionData k =
     (case get_prop actionData ''params'' of Inl e \<Rightarrow> Inl e | Inr p \<Rightarrow> get_prop p k)"

definition execAsync :: "env \<Rightarrow> jsval \<Rightarrow> effect list \<times> exec_result" where
  \<comment> \<open>\<^verbatim>\<open>exec\<close> throws on a command that is not a string, which rejects the promise\<close>
  "execAsync env command =
     (case command of
        JStr c \<Rightarrow> ([Exec c], child_exec env c)
      | v \<Rightarrow> ([], ExecFail (engine_text env (InvalidArg v))))"

definition exec_output :: "string \<Rightarrow> string \<Rightarrow> string" where
  \<comment> \<open>what both shell handlers append to their result\<close>
  "exec_output stdout stderr =
     (if trim stdout \<noteq> [] then ''\<newline>\<newline>Output:\<newline>'' @ stdout else []) @
     (if trim stderr \<noteq> [] then ''\<newline>\<newline>Errors:\<newline>'' @ stderr else [])"

definition executeAction_try ::
  "env \<Rightarrow> app_state \<Rightarrow> jsval \<Rightarrow> effect list \<times> app_state \<times> (js_error + jsval)" where
  \<comment> \<open>the \<^verbatim>\<open>try\<close> block of \<^verbatim>\<open>executeAction\<close>\<close>
  \<open>executeAction_try env st actionData =
     (case get_prop actionData ''action'' of
        Inl e \<Rightarrow> ([], st, Inl e)
      | Inr action \<Rightarrow>
          if action = JStr ''run_command'' then
            (case params_of actionData ''command'' of
               Inl e \<Rightarrow> ([], st, Inl e)
             | Inr command \<Rightarrow>
                 (case execAsync env command of
                    (es, ExecOk stdout stderr) \<Rightarrow>
                      (es, st, Inr (JStr (''Executed: '' @ js_to_string command @
                                          exec_output stdout stderr)))
                  | (es, ExecFail m) \<Rightarrow>
                      (es, st, Inr (JStr (''Error executing "'' @ js_to_string command @
                                          ''": '' @ m)))))
          else if action = JStr ''open_app'' then
            (case params_of actionData ''appName'' of
               Inl e \<Rightarrow> ([], st, Inl e)
             | Inr appName \<Rightarrow>
                 (let command =
                        (if platform env = ''win32'' then ''start '' @ js_to_string appName
                         else if platform env = ''darwin''
                         then ''open -a "'' @ js_to_string appName @ ''"''
                         else ''xdg-open "'' @ js_to_string appName @ ''" || '' @
                              js_to_string appName)
                  in (case execAsync env (JStr command) of
                        (es, ExecOk stdout stderr) \<Rightarrow>
                          (es, st, Inr (JStr (''Opened: '' @ js_to_string appName @
                                              exec_output stdout stderr)))
                      | (es, ExecFail m) \<Rightarrow>
                          (es, st, Inr (JStr (''Error opening "'' @ js_to_string appName @
                                              ''": '' @ m))))))
          else if action = JStr ''play_music'' then
            (case params_of actionData ''query'' of
               Inl e \<Rightarrow> ([], st, Inl e)
             | Inr q \<Rightarrow>
                 ([OpenExternal (''https://music.youtube.com/search?q='' @
                                 encodeURIComponent (js_to_string q))],
                  st, Inr (JStr (''Playing: '' @ js_to_string q))))
          else if action = JStr ''copy_text'' then
            (case params_of actionData ''text'' of
               Inl e \<Rightarrow> ([], st, Inl e)
             | Inr (JStr t) \<Rightarrow>
                 ([ClipboardWrite t], st\<lparr>clipboard := t\<rparr>,
                  Inr (JStr (''Copied: '' @ substring t 0 50 @ ''...'')))
             | Inr v \<Rightarrow> ([], st, Inl (InvalidArg v)))
          else if action = JStr ''analysis'' then
            (case params_of actionData ''analysis'' of
               Inl e \<Rightarrow> ([], st, Inl e)
             | Inr a \<Rightarrow> ([], st, Inr (if truthy a then a else JStr ''No analysis provided.'')))
          else if action = JStr ''open_url'' then
            (case params_of actionData ''url'' of
               Inl e \<Rightarrow> ([], st, Inl e)
             | Inr url \<Rightarrow>
                 if truthy url then
                   (case url of
                      JStr u \<Rightarrow>
                        if startsWith u ''http'' then
                          (case openExternal env u of
                             None \<Rightarrow> ([OpenExternal u], st, Inr (JStr (''Opened: '' @ u)))
                           | Some m \<Rightarrow> ([OpenExternal u], st, Inl (Failure m)))
                        else ([], st, Inr (JStr ''Invalid URL provided.''))
                    | v \<Rightarrow> ([], st, Inl (NotAFunction ''startsWith'')))
                 else ([], st, Inr (JStr ''Invalid URL provided.'')))
          else if action = JStr ''search_web'' then
            (case params_of actionData ''query'' of
               Inl e \<Rightarrow> ([], st, Inl e)
             | Inr q \<Rightarrow>
                 (let target = ''https://www.google.com/search?q='' @
                               encodeURIComponent (js_to_string q)
                  in (case openExternal env target of
                        None \<Rightarrow> ([OpenExternal target], st,
                                  Inr (JStr (''Searching: '' @ js_to_string q)))
                      | Some m \<Rightarrow> ([OpenExternal target], st, Inl (Failure m)))))
          else ([], st, Inr (JStr ''Action completed.'')))\<close>

definition executeAction :: "env \<Rightarrow> app_state \<Rightarrow> jsval \<Rightarrow> effect list \<times> app_state \<times> jsval" where
  "executeAction env st actionData =
     (case executeAction_try env st actionData of
        (es, st', Inr result) \<Rightarrow> (es, st', result)
      | (es, st', Inl error) \<Rightarrow>
          (es, st', JStr (''Error executing action: '' @ message env error @ ''.'')))"

section \<open>Dispatcher: the ask-ai handler\<close>

definition ActionKind :: "string list" where
  \<comment> \<open>the action names of the wire format\<close>
  "ActionKind = [''run_command'', ''open_app'', ''play_music'', ''copy_text'', ''search_web'',
                 ''open_url'', ''analysis'', ''replace_text'']"

definition silentActions :: "string list" where
  "silentActions = [''play_music'', ''open_url'', ''type_text'', ''copy_text'', ''search_web'',
                    ''run_command'', ''open_app'']"

definition dispatch_try ::
  "env \<Rightarrow> app_state \<Rightarrow> string \<Rightarrow> effect list \<times> app_state \<times> (js_error + unit)" where
  \<comment> \<open>the \<^verbatim>\<open>try\<close> block of the handler, run on the reply\<close>
  "dispatch_try env st response =
     (case JSON_parse env response of
        None \<Rightarrow> ([], st, Inl SyntaxError)
      | Some actionData \<Rightarrow>
          (case get_prop actionData ''action'' of
             Inl e \<Rightarrow> ([], st, Inl e)
           | Inr action \<Rightarrow>
               if action = JStr ''replace_text'' then
                 (case params_of actionData ''newText'' of
                    Inl e \<Rightarrow> ([], st, Inl e)
                  | Inr newText \<Rightarrow>
                      ([Send ''text-replacement''
                          [JObj [(''oldText'', JStr (copiedContent st)), (''newText'', newText)]]],
                       st, Inr ()))
               else if action \<in> JStr ` set silentActions then
                 (case executeAction env st actionData of
                    (es, st', result) \<Rightarrow>
                      (es @ [Send (if action = JStr ''run_command'' then ''analysis-complete''
                                   else ''action-completed'') [result]],
                       st', Inr ()))
               else if action = JStr ''analysis'' then
                 (case params_of actionData ''analysis'' of
                    Inl e \<Rightarrow> ([], st, Inl e)
                  | Inr a \<Rightarrow> ([Send ''analysis-complete'' [a]], st, Inr ()))
               else
                 (case get_prop actionData ''response'' of
                    Inl e \<Rightarrow> ([], st, Inl e)
                  | Inr r \<Rightarrow>
                      ([Send ''ask-complete'' [if truthy r then r else JStr ''Action completed.'']],
                       st, Inr ()))))"

definition dispatch :: "env \<Rightarrow> app_state \<Rightarrow> string \<Rightarrow> effect list \<times> app_state" where
  \<comment> \<open>the \<^verbatim>\<open>try\<close> with its \<^verbatim>\<open>catch (parseError)\<close>\<close>
  "dispatch env st response =
     (case dispatch_try env st response of
        (es, st', Inr u) \<Rightarrow> (es, st')
      | (es, st', Inl parseError) \<Rightarrow> (es @ [Send ''ask-complete'' [JStr response]], st'))"

definition userPromptWithClipboard :: "app_state \<Rightarrow> string \<Rightarrow> string" where
  \<open>userPromptWithClipboard st query =
     (if trim (copiedContent st) \<noteq> []
      then ''The current clipboard/highlighted text is: "'' @ copiedContent st @
           ''". User request: '' @ query
      else query)\<close>

definition ask_ai :: "env \<Rightarrow> app_state \<Rightarrow> string \<Rightarrow> effect list \<times> app_state" where
  \<comment> \<open>\<^verbatim>\<open>ipcMain.on('ask-ai')\<close>, run without another callback in between\<close>
  "ask_ai env st query =
     (case mainWindow st of
        None \<Rightarrow> ([], st)
      | Some w \<Rightarrow>
          (case analyzeContent env (config st) (userPromptWithClipboard st query) True of
             (es, response) \<Rightarrow>
               (case dispatch env st response of
                  (es', st') \<Rightarrow> (Send ''analyzing'' [] # es @ es', st'))))"

section \<open>Replacement confirmation\<close>

fun key_calls :: "env \<Rightarrow> effect list \<Rightarrow> effect list \<times> (js_error + unit)" where
  \<comment> \<open>awaited keyboard calls in a row: the first that rejects ends the row (the effects
      list the calls made, the rejected one too)\<close>
  "key_calls env [] = ([], Inr ())"
| "key_calls env (k # ks) =
     (case keyboard env k of
        Some m \<Rightarrow> ([k], Inl (Failure m))
      | None \<Rightarrow> (case key_calls env ks of (es, r) \<Rightarrow> (k # es, r)))"

definition replacement_keys :: "effect list" where
  \<comment> \<open>cut the highlighted text (Ctrl+X), then paste (Ctrl+V)\<close>
  "replacement_keys = [PressKey [LeftControl, X], ReleaseKey [LeftControl, X],
                       PressKey [LeftControl, V], ReleaseKey [LeftControl, V]]"

definition confirm_replacement_try ::
  "env \<Rightarrow> app_state \<Rightarrow> string \<Rightarrow> effect list \<times> app_state \<times> (js_error + unit)" where
  \<comment> \<open>the \<^verbatim>\<open>try\<close> block of the handler\<close>
  "confirm_replacement_try env st newText =
     (case key_calls env replacement_keys of
        (es, r) \<Rightarrow> (ClipboardWrite newText # es, st\<lparr>clipboard := newText\<rparr>, r))"

definition confirm_replacement ::
  "env \<Rightarrow> app_state \<Rightarrow> string \<Rightarrow> effect list \<times> app_state \<times> js_error option" where
  \<comment> \<open>\<^verbatim>\<open>ipcMain.on('confirm-replacement')\<close>; the last component is the error that leaves
      the handler\<close>
  "confirm_replacement env st newText =
     (case confirm_replacement_try env st newText of
        (es, st', Inr u) \<Rightarrow> (es, st', None)
      | (es, st', Inl error) \<Rightarrow> (es, st', None))"

section \<open>Presence monitor: checkFullscreen\<close>

fun split_on :: "char \<Rightarrow> string \<Rightarrow> string list" where
  \<comment> \<open>\<^verbatim>\<open>s.split(c)\<close> for a separator of one character\<close>
  "split_on c [] = [[]]"
| "split_on c (x # xs) =
     (if x = c then [] # split_on c xs
      else (case split_on c xs of [] \<Rightarrow> [[x]] | l # ls \<Rightarrow> (x # l) # ls))"

definition is_digit :: "char \<Rightarrow> bool" where
  "is_digit c = (48 \<le> (of_char c :: nat) \<and> (of_char c :: nat) \<le> 57)"

definition digits_then :: "char \<Rightarrow> string \<Rightarrow> (string \<times> string) option" where
  \<comment> \<open>the group \<^verbatim>\<open>(\d+)\<close> followed by the literal \<open>c\<close>: the group and what follows \<open>c\<close>\<close>
  "digits_then c s =
     (let d = takeWhile is_digit s in
      if d = [] then None
      else (case dropWhile is_digit s of
              [] \<Rightarrow> None
            | x # r \<Rightarrow> if x = c then Some (d, r) else None))"

definition match_here :: "string \<Rightarrow> (string \<times> string \<times> string \<times> string) option" where
  \<comment> \<open>\<^verbatim>\<open>GEOMETRY:(\d+)x(\d+)\+(\d+)\+(\d+)\<close> matched at the start of \<open>s\<close>: the four groups\<close>
  "match_here s =
     (if startsWith s ''GEOMETRY:'' then
        (case digits_then (CHR ''x'') (drop 9 s) of
           None \<Rightarrow> None
         | Some (width, r1) \<Rightarrow>
             (case digits_then (CHR ''+'') r1 of
                None \<Rightarrow> None
              | Some (height, r2) \<Rightarrow>
                  (case digits_then (CHR ''+'') r2 of
                     None \<Rightarrow> None
                   | Some (x, r3) \<Rightarrow>
                       (let y = takeWhile is_digit r3 in
                        if y = [] then None else Some (width, height, x, y)))))
      else None)"

fun match_geometry :: "string \<Rightarrow> (string \<times> string \<times> string \<times> string) option" where
  \<comment> \<open>\<^verbatim>\<open>line.match(/GEOMETRY:(\d+)x(\d+)\+(\d+)\+(\d+)/)\<close>: the leftmost match\<close>
  "match_geometry [] = None"
| "match_geometry (c # cs) =
     (case match_here (c # cs) of Some m \<Rightarrow> Some m | None \<Rightarrow> match_geometry cs)"

definition parseInt :: "string \<Rightarrow> nat" where
  \<comment> \<open>\<^verbatim>\<open>parseInt\<close> on a string of decimal digits (a JavaScript number holds it exactly
      below \<open>2 ^ 53\<close>)\<close>
  "parseInt s = foldl (\<lambda>n c. 10 * n + (of_char c - 48)) 0 s"

definition is_fullscreen :: "app_state \<Rightarrow> string \<Rightarrow> bool" where
  \<comment> \<open>the condition of the outer \<^verbatim>\<open>if\<close> on the line found\<close>
  "is_fullscreen st widthMatch =
     (case match_geometry widthMatch of
        None \<Rightarrow> False
      | Some (width, height, x, y) \<Rightarrow>
          width \<noteq> [] \<and> height \<noteq> [] \<and> parseInt width = screenWidth st \<and>
          parseInt height = workAreaSize_height (primaryDisplay st))"

definition xdotool :: string where
  "xdotool = ''xdotool getactivewindow getwindowgeometry --shell''"

definition checkFullscreen :: "env \<Rightarrow> app_state \<Rightarrow> effect list \<times> app_state" where
  \<comment> \<open>one tick: the call of \<^verbatim>\<open>exec\<close> and its callback\<close>
  "checkFullscreen env st =
     (case mainWindow st of
        None \<Rightarrow> ([], st)
      | Some w \<Rightarrow>
          if platform env \<noteq> ''linux'' then ([], st)
          else
            (case child_exec env xdotool of
               ExecFail error \<Rightarrow> ([Exec xdotool], st)
             | ExecOk stdout stderr \<Rightarrow>
                 (case find (\<lambda>line. startsWith line ''GEOMETRY'')
                            (split_on (CHR ''\<newline>'') stdout) of
                    None \<Rightarrow> ([Exec xdotool], st)
                  | Some widthMatch \<Rightarrow>
                      if is_fullscreen st widthMatch then
                        (if \<not> isHiddenForFullscreen st \<and> visible w
                         then ([Exec xdotool, Hide],
                               st\<lparr>isHiddenForFullscreen := True,
                                  mainWindow := Some (w\<lparr>visible := False\<rparr>)\<rparr>)
                         else ([Exec xdotool], st))
                      else
                        (if isHiddenForFullscreen st \<and> \<not> visible w
                         then ([Exec xdotool, Show, Focus],
                               st\<lparr>isHiddenForFullscreen := False,
                                  mainWindow := Some (w\<lparr>visible := True\<rparr>)\<rparr>)
                         else ([Exec xdotool], st)))))"

subsection \<open>The step relation of the specification\<close>

text \<open>
  The guarded step relation over \<open>PresenceState{visible, hiddenForFullscreen}\<close> as the
  specification words it; the monitor above is compared with it.
\<close>

record PresenceState =
  ps_visible :: bool
  hiddenForFullscreen :: bool

datatype tick = QueryError | Fullscreen | NotFullscreen

inductive presence_step :: "PresenceState \<Rightarrow> tick \<Rightarrow> effect list \<Rightarrow> PresenceState \<Rightarrow> bool" where
  tick_skip: "presence_step p QueryError [] p"
| tick_hide: "ps_visible p \<Longrightarrow> \<not> hiddenForFullscreen p \<Longrightarrow>
         presence_step p Fullscreen [Hide] \<lparr>ps_visible = False, hiddenForFullscreen = True\<rparr>"
| tick_fullscreen_noop: "\<not> (ps_visible p \<and> \<not> hiddenForFullscreen p) \<Longrightarrow>
         presence_step p Fullscreen [] p"
| tick_show: "\<not> ps_visible p \<Longrightarrow> hiddenForFullscreen p \<Longrightarrow>
         presence_step p NotFullscreen [Show, Focus] \<lparr>ps_visible = True, hiddenForFullscreen = False\<rparr>"
| tick_not_fullscreen_noop: "\<not> (\<not> ps_visible p \<and> hiddenForFullscreen p) \<Longrightarrow>
         presence_step p NotFullscreen [] p"

definition presence :: "app_state \<Rightarrow> PresenceState" where
  \<comment> \<open>the presence state a program state stands for; no window counts as not visible\<close>
  "presence st =
     \<lparr>ps_visible = (case mainWindow st of None \<Rightarrow> False | Some w \<Rightarrow> visible w),
      hiddenForFullscreen = isHiddenForFullscreen st\<rparr>"

definition observed :: "env \<Rightarrow> app_state \<Rightarrow> tick option" where
  \<comment> \<open>what a tick finds: \<open>None\<close> when the query succeeds with no line to read\<close>
  "observed env st =
     (case child_exec env xdotool of
        ExecFail error \<Rightarrow> Some QueryError
      | ExecOk stdout stderr \<Rightarrow>
          (case find (\<lambda>line. startsWith line ''GEOMETRY'')
                     (split_on (CHR ''\<newline>'') stdout) of
             None \<Rightarrow> None
           | Some widthMatch \<Rightarrow>
               Some (if is_fullscreen st widthMatch then Fullscreen else NotFullscreen)))"

definition window_calls :: "effect list \<Rightarrow> effect list" where
  \<comment> \<open>the calls on the overlay window among the effects\<close>
  "window_calls es = filter (\<lambda>e. e = Hide \<or> e = Show \<or> e = Focus) es"

fun ticks :: "env \<Rightarrow> app_state \<Rightarrow> nat \<Rightarrow> effect list \<times> app_state" where
  \<comment> \<open>so many ticks of the monitor in a row, the query answering the same each time\<close>
  "ticks env st 0 = ([], st)"
| "ticks env st (Suc n) =
     (case checkFullscreen env st of
        (es, st') \<Rightarrow> (case ticks env st' n of (es', st'') \<Rightarrow> (es @ es', st'')))"

section \<open>Sample inputs\<close>

text \<open>The concrete inputs on which the theorems below are instantiated.\<close>

definition default_config :: AppConfig where
  \<comment> \<open>the initial value of \<^verbatim>\<open>config\<close>\<close>
  "default_config = \<lparr>apiKey = [], model = ''x-ai/grok-4-fast:free'', language = ''en''\<rparr>"

definition sample_state :: app_state where
  \<comment> \<open>the ready state on a 1920x1080 work area, an API key configured\<close>
  "sample_state =
     ready_state \<lparr>workAreaSize_width = 1920, workAreaSize_height = 1080\<rparr>
       (default_config\<lparr>apiKey := ''sk-or-1''\<rparr>) []"

definition unknown_reply :: string where
  \<open>unknown_reply = ''{"action":"delete_everything","params":{"response":"done"}}''\<close>

definition unknown_action :: jsval where
  "unknown_action =
     JObj [(''action'', JStr ''delete_everything''),
           (''params'', JObj [(''response'', JStr ''done'')])]"

definition file_url_reply :: string where
  \<open>file_url_reply = ''{"action":"open_url","params":{"url":"file:///etc/passwd"}}''\<close>

definition file_url_action :: jsval where
  "file_url_action =
     JObj [(''action'', JStr ''open_url''),
           (''params'', JObj [(''url'', JStr ''file:///etc/passwd'')])]"

definition replace_reply :: string where
  \<open>replace_reply = ''{"action":"replace_text","params":{"newText":"Hello"}}''\<close>

definition replace_action :: jsval where
  "replace_action =
     JObj [(''action'', JStr ''replace_text''),
           (''params'', JObj [(''newText'', JStr ''Hello'')])]"

definition fullscreen_stdout :: string where
  \<comment> \<open>an answer of the geometry query with a line for the monitor to read\<close>
  "fullscreen_stdout = ''WINDOW=1\<newline>GEOMETRY:1920x1080+0+0\<newline>''"

definition sample_parse :: "string \<Rightarrow> jsval option" where
  \<comment> \<open>\<^verbatim>\<open>JSON.parse\<close> on the replies above; the other texts used below are not JSON\<close>
  "sample_parse =
     map_of [(unknown_reply, unknown_action), (file_url_reply, file_url_action),
             (replace_reply, replace_action)]"

definition sample_env :: "axios_outcome \<Rightarrow> string \<Rightarrow> effect list \<Rightarrow> env" where
  \<comment> \<open>a Linux machine: the endpoint answers \<open>reply\<close>, every shell command prints \<open>stdout\<close>,
      the keyboard calls in \<open>broken\<close> reject\<close>
  "sample_env reply stdout broken =
     \<lparr>platform = ''linux'',
      axios_post = (\<lambda>req. reply),
      JSON_parse = sample_parse,
      child_exec = (\<lambda>command. ExecOk stdout []),
      openExternal = (\<lambda>url. None),
      keyboard = (\<lambda>k. if k \<in> set broken then Some ''keyboard unavailable'' else None),
      engine_text = (\<lambda>e. ''TypeError'')\<rparr>"

section \<open>Properties of the content source\<close>

lemma trim_Nil_iff: "trim r = [] \<longleftrightarrow> (\<forall>c \<in> set r. is_ws c)"
proof
  assume blank: "trim r = []"
  show "\<forall>c \<in> set r. is_ws c"
  proof (cases "dropWhile is_ws r")
    case Nil
    then show ?thesis by simp
  next
    case (Cons x xs)
    then have "\<not> is_ws (hd (dropWhile is_ws r))"
      using hd_dropWhile [of is_ws r] by simp
    moreover from blank have "\<forall>c \<in> set (dropWhile is_ws r). is_ws c"
      by (simp add: trim_def)
    ultimately show ?thesis using Cons by simp
  qed
next
  assume "\<forall>c \<in> set r. is_ws c"
  then have h: "dropWhile is_ws r = []" by simp
  show "trim r = []" unfolding trim_def h by simp
qed

lemma trim_all_ws: "(\<forall>c \<in> set r. is_ws c) \<Longrightarrow> trim r = []"
  by (simp add: trim_Nil_iff)

text \<open>
  Claim C4. A poll announces the text it reads exactly when the text differs from the last
  observed one and is not blank after trimming. When the reads are \<open>A, A, B, B, B, C\<close>
  (neighbours different, none blank, \<open>A\<close> not yet observed) the announcements are
  \<open>A, B, C\<close>; a read of white space alone announces nothing.
\<close>

theorem clipboard_poll_dedup:
  "(mainWindow st \<noteq> None \<longrightarrow>
      fst (clipboardInterval st) =
        (if clipboard st \<noteq> copiedContent st \<and> trim (clipboard st) \<noteq> []
         then [Send ''content-copied'' [JStr (clipboard st)]] else []))
   \<and> (mainWindow st \<noteq> None \<and> copiedContent st \<noteq> A \<and> A \<noteq> B \<and> B \<noteq> C \<and>
        trim A \<noteq> [] \<and> trim B \<noteq> [] \<and> trim C \<noteq> [] \<longrightarrow>
      fst (poll_reads st [A, A, B, B, B, C]) =
        [Send ''content-copied'' [JStr A], Send ''content-copied'' [JStr B],
         Send ''content-copied'' [JStr C]])
   \<and> ((\<forall>c \<in> set r. is_ws c) \<longrightarrow> fst (clipboardInterval (st\<lparr>clipboard := r\<rparr>)) = [])"
  by (auto simp: clipboardInterval_def Let_def trim_all_ws split: option.splits)

theorem clipboard_poll_dedup_witness:
  "fst (poll_reads sample_state [''alpha'', ''alpha'', ''beta'', ''beta'', ''beta'', ''gamma'']) =
     [Send ''content-copied'' [JStr ''alpha''], Send ''content-copied'' [JStr ''beta''],
      Send ''content-copied'' [JStr ''gamma'']]
   \<and> fst (clipboardInterval (sample_state\<lparr>clipboard := ''   ''\<rparr>)) = []"
  using clipboard_poll_dedup [of sample_state "''alpha''" "''beta''" "''gamma''" "''   ''"]
  by (simp add: sample_state_def ready_state_def trim_def is_ws_def)

text \<open>
  Claim C10. The poll changes \<open>copiedContent\<close> only when it announces: a blank read or a
  repeated one leaves the state as it was. So the reads \<open>A\<close>, the empty text, \<open>A\<close> announce
  \<open>A\<close> once, the second \<open>A\<close> being the text still remembered.
\<close>

theorem clipboard_state_only_on_emit:
  "(trim r = [] \<or> r = copiedContent st \<longrightarrow>
      clipboardInterval (st\<lparr>clipboard := r\<rparr>) = ([], st\<lparr>clipboard := r\<rparr>))
   \<and> (mainWindow st \<noteq> None \<longrightarrow>
        (copiedContent (snd (clipboardInterval st)) \<noteq> copiedContent st
           \<longleftrightarrow> fst (clipboardInterval st) \<noteq> []))
   \<and> (mainWindow st \<noteq> None \<and> trim A \<noteq> [] \<and> copiedContent st \<noteq> A \<longrightarrow>
        fst (poll_reads st [A, [], A]) = [Send ''content-copied'' [JStr A]] \<and>
        copiedContent (snd (poll_reads st [A, [], A])) = A)"
  by (auto simp: clipboardInterval_def Let_def trim_def split: option.splits)

theorem clipboard_state_only_on_emit_witness:
  "fst (poll_reads sample_state [''note'', [], ''note'']) = [Send ''content-copied'' [JStr ''note'']]
   \<and> clipboardInterval (sample_state\<lparr>clipboard := '' ''\<rparr>) =
       ([], sample_state\<lparr>clipboard := '' ''\<rparr>)"
  using clipboard_state_only_on_emit [of "'' ''" sample_state "''note''"]
  by (simp add: sample_state_def ready_state_def trim_def is_ws_def)

section \<open>Properties of the completion call\<close>

text \<open>
  Claim C2, as the code has it. Without an API key the call returns its notice and posts
  nothing. With a key there is one post; status 401 gives the text on the invalid key, status
  400 or 404 the text on the model, and a timeout or transport failure the text on the
  network. An empty or absent choice list gives that same text on the network: it has no
  text of its own.
\<close>

theorem completion_failure_texts:
  "(apiKey cfg = [] \<longrightarrow>
      analyzeContent env cfg content isAction =
        ([], ''No OpenRouter API key set. Press F1 to configure.''))
   \<and> (apiKey cfg \<noteq> [] \<longrightarrow>
        fst (analyzeContent env cfg content isAction) = [HttpPost (request cfg content isAction)])
   \<and> (apiKey cfg \<noteq> [] \<and> axios_post env (request cfg content isAction) = RejectedStatus 401 \<longrightarrow>
        snd (analyzeContent env cfg content isAction) =
          ''Invalid API key (401). Press F1 to update it.'')
   \<and> (apiKey cfg \<noteq> [] \<and>
        (axios_post env (request cfg content isAction) = RejectedStatus 400 \<or>
         axios_post env (request cfg content isAction) = RejectedStatus 404) \<longrightarrow>
        snd (analyzeContent env cfg content isAction) =
          ''Model '' @ [CHR 0x27] @ model cfg @ [CHR 0x27] @ '' not available. Press F1 to change it.'')
   \<and> (apiKey cfg \<noteq> [] \<and>
        (axios_post env (request cfg content isAction) = RejectedOther \<or>
         axios_post env (request cfg content isAction) = Resolved None \<or>
         axios_post env (request cfg content isAction) = Resolved (Some [])) \<longrightarrow>
        snd (analyzeContent env cfg content isAction) =
          ''Network error or API unavailable. Please check your connection.'')"
  by (auto simp: analyzeContent_def analyzeContent_try_def Let_def
           split: axios_outcome.splits option.splits list.splits sum.splits)

theorem completion_failure_texts_witness:
  "analyzeContent (sample_env (RejectedStatus 401) [] []) default_config ''hello'' False =
     ([], ''No OpenRouter API key set. Press F1 to configure.'')
   \<and> snd (analyzeContent (sample_env (RejectedStatus 401) [] []) (config sample_state) ''hello'' False) =
       ''Invalid API key (401). Press F1 to update it.''"
  using completion_failure_texts
          [of default_config "sample_env (RejectedStatus 401) [] []" "''hello''" False]
        completion_failure_texts
          [of "config sample_state" "sample_env (RejectedStatus 401) [] []" "''hello''" False]
  by (simp add: default_config_def sample_state_def ready_state_def sample_env_def)

text \<open>
  Claim C2 as stated fails: the result for an empty choice list is the result for a
  transport failure.
\<close>

theorem malformed_response_counterexample:
  "snd (analyzeContent (sample_env (Resolved (Some [])) [] []) (config sample_state) ''hello'' False) =
     ''Network error or API unavailable. Please check your connection.''
   \<and> snd (analyzeContent (sample_env RejectedOther [] []) (config sample_state) ''hello'' False) =
     ''Network error or API unavailable. Please check your connection.''"
  by (simp add: analyzeContent_def analyzeContent_try_def sample_env_def sample_state_def
                ready_state_def default_config_def)

section \<open>Properties of the dispatcher\<close>

lemma sample_parse_unknown: "sample_parse unknown_reply = Some unknown_action"
  by (simp add: sample_parse_def)

lemma sample_parse_file_url: "sample_parse file_url_reply = Some file_url_action"
  by (simp add: sample_parse_def unknown_reply_def file_url_reply_def)

lemma sample_parse_replace: "sample_parse replace_reply = Some replace_action"
  by (simp add: sample_parse_def unknown_reply_def file_url_reply_def replace_reply_def)

lemma sample_parse_prose: "sample_parse ''Sure, here is a summary.'' = None"
  by (simp add: sample_parse_def unknown_reply_def file_url_reply_def replace_reply_def)

lemma ask_ai_reply:
  assumes "mainWindow st = Some w" and "apiKey (config st) \<noteq> []"
      and "axios_post env (request (config st) (userPromptWithClipboard st query) True) =
             Resolved (Some (reply # others))"
  shows "ask_ai env st query =
           (Send ''analyzing'' [] #
            HttpPost (request (config st) (userPromptWithClipboard st query) True) #
            fst (dispatch env st reply),
            snd (dispatch env st reply))"
  using assms
  by (simp add: ask_ai_def analyzeContent_def analyzeContent_try_def split: prod.splits)

text \<open>
  Claim C3. A reply that \<^verbatim>\<open>JSON.parse\<close> rejects is sent on, unchanged, as the answer on
  \<^verbatim>\<open>ask-complete\<close>; nothing else happens and no error leaves the dispatcher. For the
  whole handler: when the endpoint answers with such a reply, the handler announces the
  analysis, posts the request and sends the reply on.
\<close>

theorem non_json_reply_is_plain_text:
  assumes "JSON_parse env response = None"
  shows "dispatch env st response = ([Send ''ask-complete'' [JStr response]], st)
       \<and> (mainWindow st \<noteq> None \<and> apiKey (config st) \<noteq> [] \<and>
          axios_post env (request (config st) (userPromptWithClipboard st query) True) =
            Resolved (Some (response # others)) \<longrightarrow>
          ask_ai env st query =
            ([Send ''analyzing'' [],
              HttpPost (request (config st) (userPromptWithClipboard st query) True),
              Send ''ask-complete'' [JStr response]], st))"
proof -
  have plain: "dispatch env st response = ([Send ''ask-complete'' [JStr response]], st)"
    using assms by (simp add: dispatch_def dispatch_try_def)
  then show ?thesis by (auto simp: ask_ai_reply)
qed

theorem non_json_reply_is_plain_text_witness:
  "dispatch (sample_env (Resolved (Some [''Sure, here is a summary.''])) [] []) sample_state
       ''Sure, here is a summary.'' =
     ([Send ''ask-complete'' [JStr ''Sure, here is a summary.'']], sample_state)
   \<and> ask_ai (sample_env (Resolved (Some [''Sure, here is a summary.''])) [] []) sample_state
        ''summarise'' =
       ([Send ''analyzing'' [],
         HttpPost (request (config sample_state) ''summarise'' True),
         Send ''ask-complete'' [JStr ''Sure, here is a summary.'']], sample_state)"
proof -
  have prompt: "userPromptWithClipboard sample_state ''summarise'' = ''summarise''"
    by (simp add: userPromptWithClipboard_def sample_state_def ready_state_def trim_def)
  have key: "apiKey (config sample_state) \<noteq> []"
    by (simp add: sample_state_def ready_state_def default_config_def)
  have win: "mainWindow sample_state \<noteq> None"
    by (simp add: sample_state_def ready_state_def)
  from non_json_reply_is_plain_text
         [of "sample_env (Resolved (Some [''Sure, here is a summary.''])) [] []"
             "''Sure, here is a summary.''" sample_state "''summarise''" "[]"]
       prompt key win
  show ?thesis by (simp add: sample_env_def sample_parse_prose)
qed

text \<open>
  Claim C1 as stated fails: for an unknown action whose \<open>params\<close> hold a \<open>response\<close>, the
  dispatcher sends the generic notice, not that response.
\<close>

theorem unknown_action_counterexample:
  "JSON_parse (sample_env RejectedOther [] []) unknown_reply = Some unknown_action
   \<and> get_prop unknown_action ''action'' = Inr (JStr ''delete_everything'')
   \<and> params_of unknown_action ''response'' = Inr (JStr ''done'')
   \<and> dispatch (sample_env RejectedOther [] []) sample_state unknown_reply =
       ([Send ''ask-complete'' [JStr ''Action completed.'']], sample_state)"
  by (simp add: sample_env_def sample_parse_unknown unknown_action_def params_of_def
                dispatch_def dispatch_try_def silentActions_def)

text \<open>
  Claim C1, as the code has it. For a parsed reply that is not \<open>null\<close>, whose action is
  neither in the ActionKind set nor \<open>type_text\<close>, the dispatcher sends one message on
  \<^verbatim>\<open>ask-complete\<close>: the reply's own top-level \<open>response\<close> when that is truthy, else the
  notice \<open>Action completed.\<close>; it does nothing else.
\<close>

theorem unknown_action_surfaces_response:
  assumes parse: "JSON_parse env response = Some actionData"
      and act: "get_prop actionData ''action'' = Inr action"
      and unknown: "action \<notin> JStr ` set ActionKind"
      and legacy: "action \<noteq> JStr ''type_text''"
  shows "\<exists>r. get_prop actionData ''response'' = Inr r \<and>
             dispatch env st response =
               ([Send ''ask-complete'' [if truthy r then r else JStr ''Action completed.'']], st)"
proof -
  from act obtain r where r: "get_prop actionData ''response'' = Inr r"
    by (cases actionData) auto
  from unknown legacy have "action \<noteq> JStr ''replace_text''" "action \<notin> JStr ` set silentActions"
    "action \<noteq> JStr ''analysis''"
    by (auto simp: ActionKind_def silentActions_def)
  with parse act r show ?thesis
    by (simp add: dispatch_def dispatch_try_def)
qed

theorem unknown_action_surfaces_response_witness:
  "dispatch (sample_env RejectedOther [] []) sample_state unknown_reply =
     ([Send ''ask-complete'' [JStr ''Action completed.'']], sample_state)"
  using unknown_action_surfaces_response
          [of "sample_env RejectedOther [] []" unknown_reply unknown_action
              "JStr ''delete_everything''" sample_state]
  by (simp add: sample_env_def sample_parse_unknown unknown_action_def ActionKind_def)

text \<open>
  Claim C6. A parsed reply with action \<open>replace_text\<close> is not carried out by the
  dispatcher: it sends a \<^verbatim>\<open>text-replacement\<close> request that pairs \<open>oldText\<close>, the last
  captured clipboard text, with \<open>params.newText\<close>, leaves the state as it is and does nothing
  but send. The confirmation handler is the one that writes the new text to the clipboard
  and then presses and releases Ctrl+X, then Ctrl+V.
\<close>

theorem replace_text_needs_confirmation:
  assumes parse: "JSON_parse env response = Some actionData"
      and act: "get_prop actionData ''action'' = Inr (JStr ''replace_text'')"
  shows "(params_of actionData ''newText'' = Inr newText \<longrightarrow>
            dispatch env st response =
              ([Send ''text-replacement''
                  [JObj [(''oldText'', JStr (copiedContent st)), (''newText'', newText)]]], st))
       \<and> snd (dispatch env st response) = st
       \<and> (\<forall>e \<in> set (fst (dispatch env st response)). \<exists>ch args. e = Send ch args)
       \<and> (mainWindow st \<noteq> None \<and> apiKey (config st) \<noteq> [] \<and>
          axios_post env (request (config st) (userPromptWithClipboard st query) True) =
            Resolved (Some (response # others)) \<and>
          params_of actionData ''newText'' = Inr newText \<longrightarrow>
          ask_ai env st query =
            ([Send ''analyzing'' [],
              HttpPost (request (config st) (userPromptWithClipboard st query) True),
              Send ''text-replacement''
                [JObj [(''oldText'', JStr (copiedContent st)), (''newText'', newText)]]], st))
       \<and> ((\<forall>k \<in> set replacement_keys. keyboard env k = None) \<longrightarrow>
            confirm_replacement env st text =
              (ClipboardWrite text # replacement_keys, st\<lparr>clipboard := text\<rparr>, None))"
proof -
  have request: "params_of actionData ''newText'' = Inr newText \<longrightarrow>
            dispatch env st response =
              ([Send ''text-replacement''
                  [JObj [(''oldText'', JStr (copiedContent st)), (''newText'', newText)]]], st)"
    using assms by (simp add: dispatch_def dispatch_try_def)
  have same: "snd (dispatch env st response) = st"
    using assms by (simp add: dispatch_def dispatch_try_def split: sum.splits)
  have sends: "\<forall>e \<in> set (fst (dispatch env st response)). \<exists>ch args. e = Send ch args"
    using assms by (simp add: dispatch_def dispatch_try_def split: sum.splits)
  have confirm: "(\<forall>k \<in> set replacement_keys. keyboard env k = None) \<longrightarrow>
            confirm_replacement env st text =
              (ClipboardWrite text # replacement_keys, st\<lparr>clipboard := text\<rparr>, None)"
    by (simp add: confirm_replacement_def confirm_replacement_try_def replacement_keys_def)
  from request same sends confirm show ?thesis by (auto simp: ask_ai_reply)
qed

theorem replace_text_needs_confirmation_witness:
  "ask_ai (sample_env (Resolved (Some [replace_reply])) [] []) (sample_state\<lparr>copiedContent := ''Helo''\<rparr>)
       ''fix the spelling'' =
     ([Send ''analyzing'' [],
       HttpPost (request (config sample_state)
                   (userPromptWithClipboard (sample_state\<lparr>copiedContent := ''Helo''\<rparr>) ''fix the spelling'') True),
       Send ''text-replacement'' [JObj [(''oldText'', JStr ''Helo''), (''newText'', JStr ''Hello'')]]],
      sample_state\<lparr>copiedContent := ''Helo''\<rparr>)
   \<and> confirm_replacement (sample_env (Resolved (Some [replace_reply])) [] [])
        (sample_state\<lparr>copiedContent := ''Helo''\<rparr>) ''Hello'' =
       ([ClipboardWrite ''Hello'', PressKey [LeftControl, X], ReleaseKey [LeftControl, X],
         PressKey [LeftControl, V], ReleaseKey [LeftControl, V]],
        sample_state\<lparr>copiedContent := ''Helo'', clipboard := ''Hello''\<rparr>, None)"
proof -
  have key: "apiKey (config (sample_state\<lparr>copiedContent := ''Helo''\<rparr>)) \<noteq> []"
    by (simp add: sample_state_def ready_state_def default_config_def)
  have win: "mainWindow (sample_state\<lparr>copiedContent := ''Helo''\<rparr>) \<noteq> None"
    by (simp add: sample_state_def ready_state_def)
  from replace_text_needs_confirmation
         [of "sample_env (Resolved (Some [replace_reply])) [] []" replace_reply replace_action
             "JStr ''Hello''" "sample_state\<lparr>copiedContent := ''Helo''\<rparr>" "''fix the spelling''"
             "[]" "''Hello''"]
       key win
  show ?thesis
    by (simp add: sample_env_def sample_parse_replace replace_action_def params_of_def
                  replacement_keys_def)
qed

section \<open>Properties of the action handlers\<close>

text \<open>
  Claim C7. The \<open>open_url\<close> handler opens the URL externally exactly when the text of
  \<open>url\<close> begins with \<open>http\<close>; for any other text, and for a missing \<open>url\<close>, it opens
  nothing and returns \<open>Invalid URL provided.\<close>
\<close>

theorem open_url_requires_http:
  assumes act: "get_prop actionData ''action'' = Inr (JStr ''open_url'')"
      and url: "params_of actionData ''url'' = Inr url"
  shows "(url = JStr u \<longrightarrow>
            fst (executeAction env st actionData) =
              (if startsWith u ''http'' then [OpenExternal u] else []))
       \<and> (url = JStr u \<and> startsWith u ''http'' \<and> openExternal env u = None \<longrightarrow>
            executeAction env st actionData = ([OpenExternal u], st, JStr (''Opened: '' @ u)))
       \<and> ((url = JStr u \<and> \<not> startsWith u ''http'') \<or> url = JUndefined \<or> url = JNull \<longrightarrow>
            executeAction env st actionData = ([], st, JStr ''Invalid URL provided.''))"
  using assms
  by (auto simp: executeAction_def executeAction_try_def startsWith_def split: option.splits)

theorem open_url_requires_http_witness:
  "executeAction (sample_env RejectedOther [] []) sample_state file_url_action =
     ([], sample_state, JStr ''Invalid URL provided.'')"
  using open_url_requires_http
          [of file_url_action "JStr ''file:///etc/passwd''" "''file:///etc/passwd''"
              "sample_env RejectedOther [] []" sample_state]
  by (simp add: file_url_action_def params_of_def startsWith_def)

text \<open>
  Claim C8. For a text of length 80 the \<open>copy_text\<close> handler writes the whole text to
  the clipboard and returns \<open>Copied: \<close>, the first 50 characters of the text and three
  dots.
\<close>

theorem copy_text_truncates:
  assumes "get_prop actionData ''action'' = Inr (JStr ''copy_text'')"
      and "params_of actionData ''text'' = Inr (JStr t)"
      and "length t = 80"
  shows "executeAction env st actionData =
           ([ClipboardWrite t], st\<lparr>clipboard := t\<rparr>, JStr (''Copied: '' @ take 50 t @ ''...''))
         \<and> length (take 50 t) = 50
         \<and> clipboard (fst (snd (executeAction env st actionData))) = t"
  using assms by (simp add: executeAction_def executeAction_try_def substring_def)

theorem copy_text_truncates_witness:
  "executeAction (sample_env RejectedOther [] []) sample_state
     (JObj [(''action'', JStr ''copy_text''), (''params'', JObj [(''text'', JStr (replicate 80 (CHR ''a'')))])]) =
   ([ClipboardWrite (replicate 80 (CHR ''a''))],
    sample_state\<lparr>clipboard := replicate 80 (CHR ''a'')\<rparr>,
    JStr (''Copied: '' @ replicate 50 (CHR ''a'') @ ''...''))"
  using copy_text_truncates
          [of "JObj [(''action'', JStr ''copy_text''), (''params'', JObj [(''text'', JStr (replicate 80 (CHR ''a'')))])]"
              "replicate 80 (CHR ''a'')" "sample_env RejectedOther [] []" sample_state]
  by (simp add: params_of_def)

section \<open>Properties of the replacement confirmation\<close>

lemma key_calls_fail:
  "\<exists>k \<in> set ks. keyboard env k \<noteq> None \<Longrightarrow> \<exists>m. snd (key_calls env ks) = Inl (Failure m)"
proof (induction ks)
  case Nil
  then show ?case by simp
next
  case (Cons k ks)
  show ?case
  proof (cases "keyboard env k")
    case (Some m)
    then show ?thesis by simp
  next
    case None
    with Cons.prems have "\<exists>k \<in> set ks. keyboard env k \<noteq> None" by auto
    from Cons.IH [OF this] obtain m where "snd (key_calls env ks) = Inl (Failure m)" by blast
    then obtain es where "key_calls env ks = (es, Inl (Failure m))"
      by (cases "key_calls env ks") simp
    with None show ?thesis by simp
  qed
qed

lemma key_calls_effects:
  "set (fst (key_calls env ks)) \<subseteq> set ks"
  by (induction ks) (auto split: option.splits prod.splits)

text \<open>
  Claim C9. The confirmation is not atomic. When one of the keyboard calls rejects, the
  error raised inside the handler is caught there and none leaves it; nothing is sent to the
  overlay; and the clipboard, written before the first key call, holds the new text in the
  state the handler leaves behind.
\<close>

theorem replacement_not_atomic:
  assumes fails: "\<exists>k \<in> set replacement_keys. keyboard env k \<noteq> None"
  shows "(\<exists>m. snd (snd (confirm_replacement_try env st newText)) = Inl (Failure m))
       \<and> snd (snd (confirm_replacement env st newText)) = None
       \<and> fst (snd (confirm_replacement env st newText)) = st\<lparr>clipboard := newText\<rparr>
       \<and> (\<exists>ks. fst (confirm_replacement env st newText) = ClipboardWrite newText # ks \<and>
                 set ks \<subseteq> set replacement_keys)"
proof -
  from key_calls_fail [OF fails] obtain m where
    m: "snd (key_calls env replacement_keys) = Inl (Failure m)" by blast
  obtain es where es: "key_calls env replacement_keys = (es, Inl (Failure m))"
    using m by (cases "key_calls env replacement_keys") simp
  have sub: "set es \<subseteq> set replacement_keys"
    using key_calls_effects [of env replacement_keys] es by simp
  show ?thesis
    using es sub by (simp add: confirm_replacement_def confirm_replacement_try_def)
qed

theorem replacement_not_atomic_witness:
  "confirm_replacement_try (sample_env RejectedOther [] [PressKey [LeftControl, V]]) sample_state ''Hello'' =
     ([ClipboardWrite ''Hello'', PressKey [LeftControl, X], ReleaseKey [LeftControl, X],
       PressKey [LeftControl, V]],
      sample_state\<lparr>clipboard := ''Hello''\<rparr>, Inl (Failure ''keyboard unavailable''))
   \<and> snd (snd (confirm_replacement (sample_env RejectedOther [] [PressKey [LeftControl, V]]) sample_state ''Hello'')) = None
   \<and> fst (snd (confirm_replacement (sample_env RejectedOther [] [PressKey [LeftControl, V]]) sample_state ''Hello'')) =
       sample_state\<lparr>clipboard := ''Hello''\<rparr>"
  using replacement_not_atomic
          [of "sample_env RejectedOther [] [PressKey [LeftControl, V]]" sample_state "''Hello''"]
  by (simp add: sample_env_def replacement_keys_def confirm_replacement_try_def)

section \<open>Properties of the presence monitor\<close>

lemma ticks_noop:
  "checkFullscreen env st = ([Exec xdotool], st) \<Longrightarrow>
   window_calls (fst (ticks env st n)) = [] \<and> snd (ticks env st n) = st"
  by (induction n) (auto simp: window_calls_def split: prod.splits)

lemma checkFullscreen_cases:
  assumes "mainWindow st = Some w" and "platform env = ''linux''"
  shows "checkFullscreen env st =
     (case observed env st of
        None \<Rightarrow> ([Exec xdotool], st)
      | Some QueryError \<Rightarrow> ([Exec xdotool], st)
      | Some Fullscreen \<Rightarrow>
          (if \<not> isHiddenForFullscreen st \<and> visible w
           then ([Exec xdotool, Hide],
                 st\<lparr>isHiddenForFullscreen := True, mainWindow := Some (w\<lparr>visible := False\<rparr>)\<rparr>)
           else ([Exec xdotool], st))
      | Some NotFullscreen \<Rightarrow>
          (if isHiddenForFullscreen st \<and> \<not> visible w
           then ([Exec xdotool, Show, Focus],
                 st\<lparr>isHiddenForFullscreen := False, mainWindow := Some (w\<lparr>visible := True\<rparr>)\<rparr>)
           else ([Exec xdotool], st)))"
  using assms
  by (simp add: checkFullscreen_def observed_def split: exec_result.splits option.splits)

lemma sample_observed:
  "observed (sample_env RejectedOther fullscreen_stdout []) sample_state = Some Fullscreen"
  by code_simp

lemma sample_observed_again:
  "observed (sample_env RejectedOther fullscreen_stdout [])
     (snd (checkFullscreen (sample_env RejectedOther fullscreen_stdout []) sample_state)) =
   Some Fullscreen"
  by code_simp

lemma sample_hidden:
  "snd (checkFullscreen (sample_env RejectedOther fullscreen_stdout []) sample_state) =
     sample_state\<lparr>isHiddenForFullscreen := True, mainWindow := Some \<lparr>visible = False\<rparr>\<rparr>"
  using checkFullscreen_cases
          [of sample_state "\<lparr>visible = True\<rparr>" "sample_env RejectedOther fullscreen_stdout []"]
        sample_observed
  by (simp add: sample_state_def ready_state_def sample_env_def)

text \<open>
  Claim C5. On Linux with the overlay window in place, a tick of the monitor is a step of
  the guarded relation on \<open>PresenceState\<close>, and the only one; beyond the query it makes
  only the window calls of that step and changes only the window's visibility and the flag.
  A failed query changes
  nothing; under Fullscreen the overlay is hidden and the flag set only when it is visible
  with the flag clear, so further Fullscreen ticks hide nothing more; under NotFullscreen it
  is shown, focused and the flag cleared only when it is hidden with the flag set, so ticks
  while it is visible show nothing, and an overlay hidden with the flag clear stays hidden.
\<close>

theorem presence_tick_is_guarded_step:
  assumes win: "mainWindow st = Some w" and linux: "platform env = ''linux''"
  shows "(observed env st = Some t \<longrightarrow>
            (presence_step (presence st) t calls p' \<longleftrightarrow>
               calls = window_calls (fst (checkFullscreen env st)) \<and>
               p' = presence (snd (checkFullscreen env st))))
       \<and> fst (checkFullscreen env st) = Exec xdotool # window_calls (fst (checkFullscreen env st))
       \<and> snd (checkFullscreen env st) =
           st\<lparr>isHiddenForFullscreen := hiddenForFullscreen (presence (snd (checkFullscreen env st))),
              mainWindow := Some (w\<lparr>visible := ps_visible (presence (snd (checkFullscreen env st)))\<rparr>)\<rparr>
       \<and> (observed env st = Some QueryError \<or> observed env st = None \<longrightarrow>
            checkFullscreen env st = ([Exec xdotool], st))
       \<and> (observed env st = Some Fullscreen \<and> \<not> visible w \<and> isHiddenForFullscreen st \<longrightarrow>
            window_calls (fst (ticks env st n)) = [] \<and> snd (ticks env st n) = st)
       \<and> (observed env st = Some NotFullscreen \<and> visible w \<longrightarrow>
            window_calls (fst (ticks env st n)) = [] \<and> snd (ticks env st n) = st)
       \<and> (observed env st = Some NotFullscreen \<and> \<not> visible w \<and> \<not> isHiddenForFullscreen st \<longrightarrow>
            checkFullscreen env st = ([Exec xdotool], st))"
proof -
  note step = checkFullscreen_cases [OF win linux]
  have refine: "observed env st = Some t \<longrightarrow>
            (presence_step (presence st) t calls p' \<longleftrightarrow>
               calls = window_calls (fst (checkFullscreen env st)) \<and>
               p' = presence (snd (checkFullscreen env st)))"
    by (cases t) (auto simp: step presence_def win window_calls_def presence_step.simps)
  have calls: "fst (checkFullscreen env st) =
                 Exec xdotool # window_calls (fst (checkFullscreen env st))"
    by (simp add: step window_calls_def split: option.splits tick.splits)
  have frame: "snd (checkFullscreen env st) =
           st\<lparr>isHiddenForFullscreen := hiddenForFullscreen (presence (snd (checkFullscreen env st))),
              mainWindow := Some (w\<lparr>visible := ps_visible (presence (snd (checkFullscreen env st)))\<rparr>)\<rparr>"
    using win by (simp add: step presence_def split: option.splits tick.splits)
  have skip: "observed env st = Some QueryError \<or> observed env st = None \<longrightarrow>
            checkFullscreen env st = ([Exec xdotool], st)"
    by (auto simp: step)
  have hidden: "observed env st = Some Fullscreen \<and> \<not> visible w \<and> isHiddenForFullscreen st \<longrightarrow>
            window_calls (fst (ticks env st n)) = [] \<and> snd (ticks env st n) = st"
    using ticks_noop [of env st n] by (simp add: step)
  have shown: "observed env st = Some NotFullscreen \<and> visible w \<longrightarrow>
            window_calls (fst (ticks env st n)) = [] \<and> snd (ticks env st n) = st"
    using ticks_noop [of env st n] by (simp add: step)
  have override: "observed env st = Some NotFullscreen \<and> \<not> visible w \<and> \<not> isHiddenForFullscreen st \<longrightarrow>
            checkFullscreen env st = ([Exec xdotool], st)"
    by (simp add: step)
  from refine calls frame skip hidden shown override show ?thesis by blast
qed

theorem presence_tick_is_guarded_step_witness:
  "presence_step (presence sample_state) Fullscreen [Hide]
     \<lparr>ps_visible = False, hiddenForFullscreen = True\<rparr>
   \<and> checkFullscreen (sample_env RejectedOther fullscreen_stdout []) sample_state =
       ([Exec xdotool, Hide],
        sample_state\<lparr>isHiddenForFullscreen := True, mainWindow := Some \<lparr>visible = False\<rparr>\<rparr>)
   \<and> window_calls
        (fst (ticks (sample_env RejectedOther fullscreen_stdout [])
                (sample_state\<lparr>isHiddenForFullscreen := True, mainWindow := Some \<lparr>visible = False\<rparr>\<rparr>) 3)) = []"
proof -
  let ?env = "sample_env RejectedOther fullscreen_stdout []"
  let ?hidden = "sample_state\<lparr>isHiddenForFullscreen := True, mainWindow := Some \<lparr>visible = False\<rparr>\<rparr>"
  have win: "mainWindow sample_state = Some \<lparr>visible = True\<rparr>"
    by (simp add: sample_state_def ready_state_def)
  have win': "mainWindow ?hidden = Some \<lparr>visible = False\<rparr>"
    by simp
  have linux: "platform ?env = ''linux''"
    by (simp add: sample_env_def)
  have vis: "presence sample_state = \<lparr>ps_visible = True, hiddenForFullscreen = False\<rparr>"
    by (simp add: presence_def sample_state_def ready_state_def)
  have step: "presence_step (presence sample_state) Fullscreen [Hide]
     \<lparr>ps_visible = False, hiddenForFullscreen = True\<rparr>"
    unfolding vis by (rule tick_hide) simp_all
  note tick = presence_tick_is_guarded_step [OF win linux,
         of Fullscreen "[Hide]" "\<lparr>ps_visible = False, hiddenForFullscreen = True\<rparr>" 0]
  from tick sample_observed step
  have calls: "[Hide] = window_calls (fst (checkFullscreen ?env sample_state))"
    and after: "\<lparr>ps_visible = False, hiddenForFullscreen = True\<rparr> =
                  presence (snd (checkFullscreen ?env sample_state))"
    by blast+
  from tick have effects: "fst (checkFullscreen ?env sample_state) =
      Exec xdotool # window_calls (fst (checkFullscreen ?env sample_state))"
    by blast
  from tick have frame: "snd (checkFullscreen ?env sample_state) =
      sample_state\<lparr>isHiddenForFullscreen :=
                     hiddenForFullscreen (presence (snd (checkFullscreen ?env sample_state))),
                   mainWindow := Some (\<lparr>visible = True\<rparr>\<lparr>visible :=
                     ps_visible (presence (snd (checkFullscreen ?env sample_state)))\<rparr>)\<rparr>"
    by blast
  have "fst (checkFullscreen ?env sample_state) = [Exec xdotool, Hide]"
    by (subst effects) (simp add: calls [symmetric])
  moreover have "snd (checkFullscreen ?env sample_state) = ?hidden"
    by (subst frame) (simp add: after [symmetric])
  ultimately have first: "checkFullscreen ?env sample_state = ([Exec xdotool, Hide], ?hidden)"
    by (simp add: prod_eq_iff)
  have again: "observed ?env ?hidden = Some Fullscreen"
    using sample_observed_again by (simp add: sample_hidden)
  have later: "window_calls (fst (ticks ?env ?hidden 3)) = []"
    using presence_tick_is_guarded_step [OF win' linux, of Fullscreen "[]" "presence ?hidden" 3] again
    by simp
  from step first later show ?thesis by simp
qed

end
